theory Spec2Isabelle
  imports Complex_Main
begin

section \<open>FightLight project state: data model\<close>

text \<open>
  The models of \<^verbatim>\<open>hlc_core/models.py\<close>. A Python float is modelled as the real number
  it denotes: floats are finite values, compared as reals. NaN and the infinities are
  outside the model. The duration of a range is the exact difference of its ends, which
  has the sign of the difference of the floats. Where the \<^verbatim>\<open>/nudge\<close> route adds
  floats, the addition (which rounds) is a parameter of the model.

  A failed pydantic validation is the error value \<open>ValidationError\<close>: pydantic reports a
  violated \<^verbatim>\<open>Field\<close> constraint, and a \<^verbatim>\<open>ValueError\<close> raised in
  \<^verbatim>\<open>model_post_init\<close>, as a \<^verbatim>\<open>ValidationError\<close> (a subclass of \<^verbatim>\<open>ValueError\<close>).
\<close>

datatype error = ValidationError

text \<open>The field \<^verbatim>\<open>end\<close> is named \<open>end'\<close> and the field \<^verbatim>\<open>id\<close> is named \<open>id'\<close>.\<close>

record TimeRange =
  start :: real
  end' :: real

record VideoFile =
  path :: string
  duration :: "real option"
  fps :: "real option"
  width :: "int option"
  height :: "int option"

record Highlight =
  id' :: string
  name :: string
  time_range :: TimeRange
  description :: "string option"
  tags :: "string list"

text \<open>
  Python values that \<^verbatim>\<open>json.dump\<close> accepts: the values that \<^verbatim>\<open>json.load\<close> returns, and
  tuples, which \<^verbatim>\<open>json.dump\<close> writes as arrays. A dict is a list of key/value pairs read
  with \<open>map_of\<close> (a Python dict holds each key once); its keys are strings. Dicts with
  other keys, and floats that are not finite, are not represented.
\<close>

datatype jv =
    JNull
  | JBool bool
  | JInt int
  | JFloat real
  | JStr string
  | JList "jv list"
  | JTuple "jv list"
  | JObj "(string \<times> jv) list"

record ProjectState =
  project_name :: string
  video_file :: "VideoFile option"
  highlights :: "Highlight list"
  selected_highlight_id :: "string option"
  export_settings :: "(string \<times> jv) list"

subsection \<open>TimeRange\<close>

text \<open>
  \<^verbatim>\<open>TimeRange(start=s, end=e)\<close> on two floats: \<^verbatim>\<open>Field(ge=0)\<close> on \<^verbatim>\<open>start\<close>,
  \<^verbatim>\<open>Field(gt=0)\<close> on \<^verbatim>\<open>end\<close>, then \<^verbatim>\<open>model_post_init\<close>, which raises when
  \<^verbatim>\<open>end <= start\<close>.
\<close>

definition mk_TimeRange :: "real \<Rightarrow> real \<Rightarrow> error + TimeRange" where
  "mk_TimeRange s e =
     (if \<not> s \<ge> 0 then Inl ValidationError
      else if \<not> e > 0 then Inl ValidationError
      else if e \<le> s then Inl ValidationError
      else Inr \<lparr>start = s, end' = e\<rparr>)"

text \<open>The invariant of a time range: \<^verbatim>\<open>start >= 0\<close> and \<^verbatim>\<open>end > start\<close>.\<close>

definition valid_TimeRange :: "TimeRange \<Rightarrow> bool" where
  "valid_TimeRange r \<longleftrightarrow> 0 \<le> start r \<and> start r < end' r"

text \<open>
  The duration of a range, as the \<^verbatim>\<open>highlights\<close> command of \<^verbatim>\<open>hlc_cli/main.py\<close> computes it:
  \<^verbatim>\<open>duration = highlight.time_range.end - highlight.time_range.start\<close>.
\<close>

definition range_duration :: "TimeRange \<Rightarrow> real" where
  "range_duration r = end' r - start r"

subsection \<open>ProjectState methods\<close>

text \<open>
  The loop \<^verbatim>\<open>for highlight in self.highlights: if highlight.id == sid: return highlight\<close>
  of \<^verbatim>\<open>get_selected_highlight\<close>, with \<^verbatim>\<open>return None\<close> after it.
\<close>

fun find_highlight :: "string \<Rightarrow> Highlight list \<Rightarrow> Highlight option" where
  "find_highlight sid [] = None"
| "find_highlight sid (h # hs) = (if id' h = sid then Some h else find_highlight sid hs)"

text \<open>
  \<^verbatim>\<open>if not self.selected_highlight_id: return None\<close>: both \<^verbatim>\<open>None\<close> and the empty
  string are falsy.
\<close>

definition get_selected_highlight :: "ProjectState \<Rightarrow> Highlight option" where
  "get_selected_highlight p =
     (case selected_highlight_id p of
        None \<Rightarrow> None
      | Some sid \<Rightarrow> if sid = [] then None else find_highlight sid (highlights p))"

text \<open>\<^verbatim>\<open>self.highlights.append(highlight)\<close>; the method has no other statement.\<close>

definition add_highlight :: "ProjectState \<Rightarrow> Highlight \<Rightarrow> ProjectState" where
  "add_highlight p h = p\<lparr>highlights := highlights p @ [h]\<rparr>"

text \<open>
  The loop \<^verbatim>\<open>for i, highlight in enumerate(self.highlights)\<close> of \<^verbatim>\<open>remove_highlight\<close>:
  the index \<open>i\<close> (counted from the second argument) of the first highlight with the id,
  or \<open>None\<close> when the loop runs to its end.
\<close>

fun first_index :: "string \<Rightarrow> nat \<Rightarrow> Highlight list \<Rightarrow> nat option" where
  "first_index hid i [] = None"
| "first_index hid i (h # hs) = (if id' h = hid then Some i else first_index hid (Suc i) hs)"

text \<open>\<^verbatim>\<open>xs.pop(i)\<close> for an index within the list (the only use here).\<close>

definition pop_at :: "nat \<Rightarrow> 'a list \<Rightarrow> 'a list" where
  "pop_at i xs = take i xs @ drop (Suc i) xs"

text \<open>The state after the call, and the value returned.\<close>

definition remove_highlight :: "ProjectState \<Rightarrow> string \<Rightarrow> ProjectState \<times> bool" where
  "remove_highlight p highlight_id =
     (case first_index highlight_id 0 (highlights p) of
        None \<Rightarrow> (p, False)
      | Some i \<Rightarrow>
          (p\<lparr>highlights := pop_at i (highlights p),
             selected_highlight_id :=
               (if selected_highlight_id p = Some highlight_id then None
                else selected_highlight_id p)\<rparr>,
           True))"

text \<open>Every highlight of the project holds a valid time range.\<close>

definition ranges_valid :: "ProjectState \<Rightarrow> bool" where
  "ranges_valid p \<longleftrightarrow> (\<forall>h\<in>set (highlights p). valid_TimeRange (time_range h))"

section \<open>Serialisation\<close>

text \<open>
  \<^verbatim>\<open>model_dump\<close>: every model becomes a dict keyed by its field names, in the order of
  declaration; an unset optional field is dumped as \<^verbatim>\<open>None\<close>.
\<close>

definition dump_optional :: "('a \<Rightarrow> jv) \<Rightarrow> 'a option \<Rightarrow> jv" where
  "dump_optional f x = (case x of None \<Rightarrow> JNull | Some y \<Rightarrow> f y)"

definition dump_TimeRange :: "TimeRange \<Rightarrow> jv" where
  "dump_TimeRange r = JObj [(''start'', JFloat (start r)), (''end'', JFloat (end' r))]"

definition dump_VideoFile :: "VideoFile \<Rightarrow> jv" where
  "dump_VideoFile v =
     JObj [(''path'', JStr (path v)),
           (''duration'', dump_optional JFloat (duration v)),
           (''fps'', dump_optional JFloat (fps v)),
           (''width'', dump_optional JInt (width v)),
           (''height'', dump_optional JInt (height v))]"

definition dump_Highlight :: "Highlight \<Rightarrow> jv" where
  "dump_Highlight h =
     JObj [(''id'', JStr (id' h)),
           (''name'', JStr (name h)),
           (''time_range'', dump_TimeRange (time_range h)),
           (''description'', dump_optional JStr (description h)),
           (''tags'', JList (map JStr (tags h)))]"

definition model_dump :: "ProjectState \<Rightarrow> jv" where
  "model_dump p =
     JObj [(''project_name'', JStr (project_name p)),
           (''video_file'', dump_optional dump_VideoFile (video_file p)),
           (''highlights'', JList (map dump_Highlight (highlights p))),
           (''selected_highlight_id'', dump_optional JStr (selected_highlight_id p)),
           (''export_settings'', JObj (export_settings p))]"

text \<open>
  What \<^verbatim>\<open>json.load\<close> reads from a file that \<^verbatim>\<open>json.dump\<close> wrote: a tuple is written as
  an array and read as a list; any other value is read as it was written.
\<close>

primrec json_reload :: "jv \<Rightarrow> jv" where
  "json_reload JNull = JNull"
| "json_reload (JBool b) = JBool b"
| "json_reload (JInt i) = JInt i"
| "json_reload (JFloat r) = JFloat r"
| "json_reload (JStr s) = JStr s"
| "json_reload (JList vs) = JList (map json_reload vs)"
| "json_reload (JTuple vs) = JList (map json_reload vs)"
| "json_reload (JObj kvs) = JObj (map (map_prod id json_reload) kvs)"

text \<open>The values that JSON represents as they are: those that hold no tuple.\<close>

fun json_like :: "jv \<Rightarrow> bool" where
  "json_like (JList vs) = (\<forall>v\<in>set vs. json_like v)"
| "json_like (JTuple vs) = False"
| "json_like (JObj kvs) = (\<forall>v\<in>snd ` set kvs. json_like v)"
| "json_like v = True"

text \<open>
  The project as it comes back from the state file: only \<^verbatim>\<open>export_settings\<close> can hold
  a tuple.
\<close>

definition reloaded :: "ProjectState \<Rightarrow> ProjectState" where
  "reloaded p = p\<lparr>export_settings := map (map_prod id json_reload) (export_settings p)\<rparr>"

text \<open>
  \<^verbatim>\<open>model_validate\<close>, following the field declarations of each class. A field of type
  \<^verbatim>\<open>float\<close> takes a float as it is, \<^verbatim>\<open>int\<close> an int, \<^verbatim>\<open>str\<close> a string,
  \<^verbatim>\<open>Optional[T]\<close> also \<^verbatim>\<open>None\<close>, \<^verbatim>\<open>List[T]\<close> a list or a tuple whose every item
  validates, \<^verbatim>\<open>dict\<close> any dict, and a nested model a dict. A field declared with a
  default may be missing, any other field is required, and unknown keys are ignored.

  What pydantic's lax mode makes of any other value given for a \<^verbatim>\<open>float\<close> field (an int,
  which is rounded to a float; a numeric string; a boolean) or for an \<^verbatim>\<open>int\<close> field (a
  float without fraction, a numeric string, a boolean) is not in the source. These two
  conversions are parameters of the model, and nothing is assumed of them.
\<close>

record conversions =
  lax_float :: "jv \<Rightarrow> error + real"
  lax_int :: "jv \<Rightarrow> error + int"

definition and_then :: "error + 'a \<Rightarrow> ('a \<Rightarrow> error + 'b) \<Rightarrow> error + 'b" where
  "and_then r f = (case r of Inl e \<Rightarrow> Inl e | Inr x \<Rightarrow> f x)"

definition validate_float :: "conversions \<Rightarrow> jv \<Rightarrow> error + real" where
  "validate_float lax v = (case v of JFloat r \<Rightarrow> Inr r | _ \<Rightarrow> lax_float lax v)"

definition validate_int :: "conversions \<Rightarrow> jv \<Rightarrow> error + int" where
  "validate_int lax v = (case v of JInt i \<Rightarrow> Inr i | _ \<Rightarrow> lax_int lax v)"

definition validate_str :: "jv \<Rightarrow> error + string" where
  "validate_str v = (case v of JStr s \<Rightarrow> Inr s | _ \<Rightarrow> Inl ValidationError)"

definition validate_dict :: "jv \<Rightarrow> error + (string \<times> jv) list" where
  "validate_dict v = (case v of JObj kvs \<Rightarrow> Inr kvs | _ \<Rightarrow> Inl ValidationError)"

definition validate_optional :: "(jv \<Rightarrow> error + 'a) \<Rightarrow> jv \<Rightarrow> error + 'a option" where
  "validate_optional f v =
     (case v of JNull \<Rightarrow> Inr None | _ \<Rightarrow> and_then (f v) (\<lambda>x. Inr (Some x)))"

fun validate_each :: "(jv \<Rightarrow> error + 'a) \<Rightarrow> jv list \<Rightarrow> error + 'a list" where
  "validate_each f [] = Inr []"
| "validate_each f (v # vs) =
     and_then (f v) (\<lambda>x. and_then (validate_each f vs) (\<lambda>xs. Inr (x # xs)))"

definition validate_list :: "(jv \<Rightarrow> error + 'a) \<Rightarrow> jv \<Rightarrow> error + 'a list" where
  "validate_list f v =
     (case v of
        JList vs \<Rightarrow> validate_each f vs
      | JTuple vs \<Rightarrow> validate_each f vs
      | _ \<Rightarrow> Inl ValidationError)"

definition required :: "(string \<times> jv) list \<Rightarrow> string \<Rightarrow> (jv \<Rightarrow> error + 'a) \<Rightarrow> error + 'a" where
  "required kvs k f = (case map_of kvs k of None \<Rightarrow> Inl ValidationError | Some v \<Rightarrow> f v)"

definition with_default ::
  "(string \<times> jv) list \<Rightarrow> string \<Rightarrow> 'a \<Rightarrow> (jv \<Rightarrow> error + 'a) \<Rightarrow> error + 'a" where
  "with_default kvs k d f = (case map_of kvs k of None \<Rightarrow> Inr d | Some v \<Rightarrow> f v)"

definition validate_TimeRange :: "conversions \<Rightarrow> jv \<Rightarrow> error + TimeRange" where
  "validate_TimeRange lax v =
     (case v of
        JObj kvs \<Rightarrow>
          and_then (required kvs ''start'' (validate_float lax)) (\<lambda>s.
          and_then (required kvs ''end'' (validate_float lax)) (\<lambda>e.
          mk_TimeRange s e))
      | _ \<Rightarrow> Inl ValidationError)"

definition validate_VideoFile :: "conversions \<Rightarrow> jv \<Rightarrow> error + VideoFile" where
  "validate_VideoFile lax v =
     (case v of
        JObj kvs \<Rightarrow>
          and_then (required kvs ''path'' validate_str) (\<lambda>p.
          and_then (with_default kvs ''duration'' None (validate_optional (validate_float lax))) (\<lambda>d.
          and_then (with_default kvs ''fps'' None (validate_optional (validate_float lax))) (\<lambda>f.
          and_then (with_default kvs ''width'' None (validate_optional (validate_int lax))) (\<lambda>w.
          and_then (with_default kvs ''height'' None (validate_optional (validate_int lax))) (\<lambda>h.
          Inr \<lparr>path = p, duration = d, fps = f, width = w, height = h\<rparr>)))))
      | _ \<Rightarrow> Inl ValidationError)"

definition validate_Highlight :: "conversions \<Rightarrow> jv \<Rightarrow> error + Highlight" where
  "validate_Highlight lax v =
     (case v of
        JObj kvs \<Rightarrow>
          and_then (required kvs ''id'' validate_str) (\<lambda>i.
          and_then (required kvs ''name'' validate_str) (\<lambda>n.
          and_then (required kvs ''time_range'' (validate_TimeRange lax)) (\<lambda>r.
          and_then (with_default kvs ''description'' None (validate_optional validate_str)) (\<lambda>d.
          and_then (with_default kvs ''tags'' [] (validate_list validate_str)) (\<lambda>t.
          Inr \<lparr>id' = i, name = n, time_range = r, description = d, tags = t\<rparr>)))))
      | _ \<Rightarrow> Inl ValidationError)"

definition model_validate :: "conversions \<Rightarrow> jv \<Rightarrow> error + ProjectState" where
  "model_validate lax v =
     (case v of
        JObj kvs \<Rightarrow>
          and_then (required kvs ''project_name'' validate_str) (\<lambda>n.
          and_then (with_default kvs ''video_file'' None
                      (validate_optional (validate_VideoFile lax))) (\<lambda>f.
          and_then (with_default kvs ''highlights'' []
                      (validate_list (validate_Highlight lax))) (\<lambda>hs.
          and_then (with_default kvs ''selected_highlight_id'' None (validate_optional validate_str)) (\<lambda>s.
          and_then (with_default kvs ''export_settings'' [] validate_dict) (\<lambda>x.
          Inr \<lparr>project_name = n, video_file = f, highlights = hs,
               selected_highlight_id = s, export_settings = x\<rparr>)))))
      | _ \<Rightarrow> Inl ValidationError)"

text \<open>
  \<^verbatim>\<open>VideoFile(path=p, duration=d, fps=f, width=w, height=h)\<close>: the keyword arguments are
  validated as the fields of a dict are.
\<close>

definition mk_VideoFile ::
  "conversions \<Rightarrow> string \<Rightarrow> real option \<Rightarrow> real option \<Rightarrow> int option \<Rightarrow> int option \<Rightarrow>
     error + VideoFile" where
  "mk_VideoFile lax p d f w h =
     validate_VideoFile lax
       (JObj [(''path'', JStr p),
              (''duration'', dump_optional JFloat d),
              (''fps'', dump_optional JFloat f),
              (''width'', dump_optional JInt w),
              (''height'', dump_optional JInt h)])"

section \<open>The state file and the web routes\<close>

text \<open>
  The store is the content of \<^verbatim>\<open>project_state.json\<close> as \<^verbatim>\<open>json.load\<close> reads it, or
  \<open>None\<close> when the file is missing or is not JSON. \<^verbatim>\<open>load_project_state\<close> returns
  \<^verbatim>\<open>None\<close> for a missing file and on any exception.
\<close>

type_synonym store = "jv option"

definition load_project_state :: "conversions \<Rightarrow> store \<Rightarrow> ProjectState option" where
  "load_project_state lax st =
     (case st of
        None \<Rightarrow> None
      | Some data \<Rightarrow> (case model_validate lax data of Inl e \<Rightarrow> None | Inr p \<Rightarrow> Some p))"

text \<open>
  \<^verbatim>\<open>save_project_state\<close> opens the file with mode \<^verbatim>\<open>'w'\<close>, which empties it, and then
  dumps the state into it; on any exception it returns \<^verbatim>\<open>False\<close>. The first argument
  says how the write goes: it succeeds; or \<^verbatim>\<open>open\<close> raises and the file stays as it was;
  or \<^verbatim>\<open>json.dump\<close> raises after \<^verbatim>\<open>open\<close> and leaves a truncated file, which is not
  JSON.
\<close>

datatype write_outcome = Written | OpenFailed | DumpFailed

definition save_project_state :: "write_outcome \<Rightarrow> ProjectState \<Rightarrow> store \<Rightarrow> bool \<times> store" where
  "save_project_state w state st =
     (case w of
        Written \<Rightarrow> (True, Some (json_reload (model_dump state)))
      | OpenFailed \<Rightarrow> (False, st)
      | DumpFailed \<Rightarrow> (False, None))"

text \<open>
  A response is its status code and the fixed part of its message. The request fields are
  taken at the type the routes expect: \<^verbatim>\<open>highlight_id\<close> a string and \<^verbatim>\<open>offset\<close> a
  number, \<open>None\<close> when the key is missing.
\<close>

type_synonym response = "nat \<times> string"

definition select_highlight ::
  "conversions \<Rightarrow> write_outcome \<Rightarrow> string option \<Rightarrow> store \<Rightarrow> response \<times> store" where
  "select_highlight lax w highlight_id st =
     (case highlight_id of
        None \<Rightarrow> ((400, ''highlight_id is required''), st)
      | Some hid \<Rightarrow>
          if hid = [] then ((400, ''highlight_id is required''), st)
          else
            (case load_project_state lax st of
               None \<Rightarrow> ((404, ''No project loaded''), st)
             | Some project \<Rightarrow>
                 if \<not> (\<exists>h\<in>set (highlights project). id' h = hid)
                 then ((404, ''Highlight not found''), st)
                 else
                   (case save_project_state w
                           (project\<lparr>selected_highlight_id := Some hid\<rparr>) st of
                      (True, st') \<Rightarrow> ((200, ''Highlight selected''), st')
                    | (False, st') \<Rightarrow> ((500, ''Failed to save project state''), st'))))"



section \<open>Example projects\<close>

definition jab :: Highlight where
  "jab = \<lparr>id' = ''h1'', name = ''Jab'', time_range = \<lparr>start = 5, end' = 15\<rparr>,
          description = None, tags = []\<rparr>"

definition hook :: Highlight where
  "hook = \<lparr>id' = ''h2'', name = ''Hook'', time_range = \<lparr>start = 10, end' = 20\<rparr>,
           description = Some ''left hook'', tags = [''round1'']\<rparr>"


definition fight_night :: ProjectState where
  "fight_night = \<lparr>project_name = ''Fight Night'', video_file = None, highlights = [],
     selected_highlight_id = None, export_settings = []\<rparr>"

text \<open>A project with every field set.\<close>

definition title_fight :: ProjectState where
  "title_fight =
     \<lparr>project_name = ''Title Fight'',
      video_file = Some \<lparr>path = ''/test/video.mp4'', duration = Some 60, fps = None,
                          width = Some 1920, height = None\<rparr>,
      highlights = [jab, hook],
      selected_highlight_id = Some ''h2'',
      export_settings = [(''format'', JStr ''mp4'')]\<rparr>"

text \<open>Two highlights whose id is the empty string.\<close>

definition blank :: Highlight where
  "blank = \<lparr>id' = [], name = ''Untitled'', time_range = \<lparr>start = 1, end' = 2\<rparr>,
            description = None, tags = []\<rparr>"

definition blank_again :: Highlight where
  "blank_again = \<lparr>id' = [], name = ''Untitled 2'', time_range = \<lparr>start = 3, end' = 4\<rparr>,
            description = None, tags = []\<rparr>"

text \<open>A project whose export settings hold a tuple.\<close>

definition widescreen :: ProjectState where
  "widescreen = fight_night\<lparr>export_settings := [(''size'', JTuple [JInt 1920, JInt 1080])]\<rparr>"

text \<open>
  Conversions that refuse every value. The documents and arguments of the examples below
  hold a float where a float is declared and an int where an int is declared, so that no
  conversion is asked for.
\<close>

definition declared_types :: conversions where
  "declared_types =
     \<lparr>lax_float = (\<lambda>v. Inl ValidationError), lax_int = (\<lambda>v. Inl ValidationError)\<rparr>"

text \<open>Projects with a selected highlight.\<close>

definition round_one :: ProjectState where
  "round_one = fight_night\<lparr>highlights := [jab, hook], selected_highlight_id := Some ''h2''\<rparr>"


section \<open>Properties\<close>

subsection \<open>TimeRange construction\<close>

text \<open>
  C2. For all \<open>start\<close> and \<open>end\<close>, constructing a TimeRange succeeds exactly when
  \<open>start \<ge> 0\<close> and \<open>end > start\<close>; it then stores both values as given (no clamping) and
  the duration \<open>end - start\<close> is strictly positive; in every other case it fails with a
  validation error.
\<close>

theorem TimeRange_construction:
  "(0 \<le> s \<and> s < e \<longrightarrow>
      mk_TimeRange s e = Inr \<lparr>start = s, end' = e\<rparr> \<and>
      range_duration \<lparr>start = s, end' = e\<rparr> = e - s \<and>
      0 < range_duration \<lparr>start = s, end' = e\<rparr>)
   \<and> (\<not> (0 \<le> s \<and> s < e) \<longrightarrow> mk_TimeRange s e = Inl ValidationError)"
  by (auto simp: mk_TimeRange_def range_duration_def)

theorem TimeRange_construction_witness:
  "mk_TimeRange 10 20 = Inr \<lparr>start = 10, end' = 20\<rparr>
   \<and> range_duration \<lparr>start = 10, end' = 20\<rparr> = 10
   \<and> mk_TimeRange 20 10 = Inl ValidationError
   \<and> mk_TimeRange 10 10 = Inl ValidationError
   \<and> mk_TimeRange (-1) 5 = Inl ValidationError"
  using TimeRange_construction [of 10 20] TimeRange_construction [of 20 10]
    TimeRange_construction [of 10 10] TimeRange_construction [of "-1" 5]
  by simp

subsection \<open>Searching the highlight list\<close>

lemma first_index_None: "first_index hid i hs = None \<longleftrightarrow> (\<forall>h\<in>set hs. id' h \<noteq> hid)"
  by (induction hs arbitrary: i) auto

lemma first_index_first:
  "\<forall>x\<in>set pre. id' x \<noteq> hid \<Longrightarrow> id' h = hid \<Longrightarrow>
   first_index hid i (pre @ h # post) = Some (i + length pre)"
  by (induction pre arbitrary: i) auto

lemma pop_at_first: "pop_at (length pre) (pre @ h # post) = pre @ post"
  by (simp add: pop_at_def)

lemma find_highlight_None: "find_highlight sid hs = None \<longleftrightarrow> (\<forall>h\<in>set hs. id' h \<noteq> sid)"
  by (induction hs) auto

lemma find_highlight_first:
  "\<forall>x\<in>set pre. id' x \<noteq> sid \<Longrightarrow> id' h = sid \<Longrightarrow> find_highlight sid (pre @ h # post) = Some h"
  by (induction pre) auto


lemma first_split:
  "\<exists>h\<in>set hs. id' h = hid \<Longrightarrow>
   \<exists>pre h post. hs = pre @ h # post \<and> id' h = hid \<and> (\<forall>x\<in>set pre. id' x \<noteq> hid)"
  using split_list_first_prop [of hs "\<lambda>h. id' h = hid"] by blast

subsection \<open>Removing a highlight\<close>

lemma remove_highlight_found:
  assumes "highlights p = pre @ h # post" "id' h = hid" "\<forall>x\<in>set pre. id' x \<noteq> hid"
  shows "remove_highlight p hid =
     (p\<lparr>highlights := pre @ post,
        selected_highlight_id :=
          (if selected_highlight_id p = Some hid then None else selected_highlight_id p)\<rparr>, True)"
  using assms first_index_first [of pre hid h 0 post]
  by (simp add: remove_highlight_def pop_at_first)

lemma remove_highlight_missing:
  "\<forall>h\<in>set (highlights p). id' h \<noteq> hid \<Longrightarrow> remove_highlight p hid = (p, False)"
  using first_index_None [of hid 0 "highlights p"] by (simp add: remove_highlight_def)

text \<open>
  C1. When some highlight has the given id, \<open>remove_highlight\<close> removes the first such
  highlight and no other, returns \<open>True\<close>, and clears the selection exactly when the
  selection was that id; every other field is as before. When no highlight has the id, it
  returns \<open>False\<close> and the state is unchanged.
\<close>

theorem remove_highlight_first_match:
  "if \<exists>h\<in>set (highlights p). id' h = hid
   then \<exists>pre h post.
          highlights p = pre @ h # post \<and> id' h = hid \<and> (\<forall>x\<in>set pre. id' x \<noteq> hid) \<and>
          remove_highlight p hid =
            (p\<lparr>highlights := pre @ post,
               selected_highlight_id :=
                 (if selected_highlight_id p = Some hid then None
                  else selected_highlight_id p)\<rparr>, True)
   else remove_highlight p hid = (p, False)"
proof (cases "\<exists>h\<in>set (highlights p). id' h = hid")
  case True
  then obtain pre h post where
    d: "highlights p = pre @ h # post" "id' h = hid" "\<forall>x\<in>set pre. id' x \<noteq> hid"
    using first_split by blast
  from remove_highlight_found [OF d] d True show ?thesis by auto
next
  case False
  then show ?thesis using remove_highlight_missing [of p hid] by auto
qed

text \<open>
  The scenario of the tests: removing the selected highlight clears the selection,
  removing another one keeps it, and an unknown id changes nothing.
\<close>

theorem remove_highlight_first_match_witness:
  "remove_highlight round_one ''h2'' = (fight_night\<lparr>highlights := [jab]\<rparr>, True)
   \<and> remove_highlight round_one ''h1''
     = (fight_night\<lparr>highlights := [hook], selected_highlight_id := Some ''h2''\<rparr>, True)
   \<and> remove_highlight round_one ''missing'' = (round_one, False)"
  using remove_highlight_first_match [of round_one "''h2''"]
    remove_highlight_first_match [of round_one "''h1''"]
    remove_highlight_first_match [of round_one "''missing''"]
  by (simp add: remove_highlight_def pop_at_def round_one_def jab_def hook_def fight_night_def)

subsection \<open>The selected highlight\<close>

lemma get_selected_highlight_found:
  assumes "selected_highlight_id p = Some sid" "sid \<noteq> []"
    "highlights p = pre @ h # post" "id' h = sid" "\<forall>x\<in>set pre. id' x \<noteq> sid"
  shows "get_selected_highlight p = Some h"
  using assms find_highlight_first [of pre sid h post]
  by (simp add: get_selected_highlight_def)


text \<open>
  C3, as the code has it. \<open>get_selected_highlight\<close> returns \<open>None\<close> when the selection is
  \<open>None\<close> or the empty string, or when no highlight has the selected id; otherwise it
  returns the first highlight with the selected id. It is a function of the state alone and
  returns no state: the query changes nothing.
\<close>

theorem get_selected_highlight_result:
  "if selected_highlight_id p = None \<or> selected_highlight_id p = Some []
      \<or> (\<forall>h\<in>set (highlights p). Some (id' h) \<noteq> selected_highlight_id p)
   then get_selected_highlight p = None
   else \<exists>pre h post.
          highlights p = pre @ h # post \<and> Some (id' h) = selected_highlight_id p \<and>
          (\<forall>x\<in>set pre. Some (id' x) \<noteq> selected_highlight_id p) \<and>
          get_selected_highlight p = Some h"
proof (cases "selected_highlight_id p")
  case None
  then show ?thesis by (simp add: get_selected_highlight_def)
next
  case (Some sid)
  show ?thesis
  proof (cases "sid = [] \<or> (\<forall>h\<in>set (highlights p). id' h \<noteq> sid)")
    case True
    then have "get_selected_highlight p = None"
      using Some find_highlight_None [of sid "highlights p"]
      by (auto simp: get_selected_highlight_def)
    with True Some show ?thesis by auto
  next
    case False
    then obtain pre h post where
      d: "highlights p = pre @ h # post" "id' h = sid" "\<forall>x\<in>set pre. id' x \<noteq> sid"
      using first_split [of "highlights p" sid] by blast
    have "get_selected_highlight p = Some h"
      using get_selected_highlight_found [OF Some _ d] False by simp
    with False Some d show ?thesis by auto
  qed
qed

text \<open>
  A selected id that is present, one that is absent, and no selection.
\<close>

theorem get_selected_highlight_result_witness:
  "get_selected_highlight (fight_night\<lparr>highlights := [jab, hook], selected_highlight_id := Some ''h2''\<rparr>)
     = Some hook
   \<and> get_selected_highlight (fight_night\<lparr>highlights := [jab, hook], selected_highlight_id := Some ''h9''\<rparr>)
     = None
   \<and> get_selected_highlight (fight_night\<lparr>highlights := [jab, hook]\<rparr>) = None"
  using get_selected_highlight_result
      [of "fight_night\<lparr>highlights := [jab, hook], selected_highlight_id := Some ''h2''\<rparr>"]
    get_selected_highlight_result
      [of "fight_night\<lparr>highlights := [jab, hook], selected_highlight_id := Some ''h9''\<rparr>"]
    get_selected_highlight_result [of "fight_night\<lparr>highlights := [jab, hook]\<rparr>"]
  by (simp add: get_selected_highlight_def jab_def hook_def fight_night_def)

text \<open>
  C3 as stated fails for the empty string: a highlight with id \<open>[]\<close> is in the list and
  is the selection, and the query still returns \<open>None\<close>.
\<close>

theorem get_selected_highlight_empty_id:
  "blank \<in> set (highlights (fight_night\<lparr>highlights := [blank], selected_highlight_id := Some []\<rparr>))
   \<and> selected_highlight_id (fight_night\<lparr>highlights := [blank], selected_highlight_id := Some []\<rparr>)
       = Some (id' blank)
   \<and> get_selected_highlight (fight_night\<lparr>highlights := [blank], selected_highlight_id := Some []\<rparr>)
       = None"
  by (simp add: get_selected_highlight_def blank_def fight_night_def)

subsection \<open>Adding a highlight\<close>

text \<open>
  C6, as the code has it. \<open>add_highlight\<close> always appends the highlight at the end and
  keeps the existing entries in their order; it never fails. When the id is already in the
  list, the list then holds that id twice.
\<close>

theorem add_highlight_appends:
  "add_highlight p h = p\<lparr>highlights := highlights p @ [h]\<rparr>
   \<and> take (length (highlights p)) (highlights (add_highlight p h)) = highlights p
   \<and> last (highlights (add_highlight p h)) = h
   \<and> length (highlights (add_highlight p h)) = Suc (length (highlights p))
   \<and> (id' h \<in> set (map id' (highlights p)) \<longrightarrow>
        \<not> distinct (map id' (highlights (add_highlight p h))))"
  by (simp add: add_highlight_def)

text \<open>
  Appending a new id, and appending an id that is already there.
\<close>

theorem add_highlight_appends_witness:
  "add_highlight (fight_night\<lparr>highlights := [jab]\<rparr>) hook = fight_night\<lparr>highlights := [jab, hook]\<rparr>
   \<and> add_highlight (fight_night\<lparr>highlights := [jab]\<rparr>) jab = fight_night\<lparr>highlights := [jab, jab]\<rparr>
   \<and> \<not> distinct (map id' (highlights (add_highlight (fight_night\<lparr>highlights := [jab]\<rparr>) jab)))"
  using add_highlight_appends [of "fight_night\<lparr>highlights := [jab]\<rparr>" hook]
    add_highlight_appends [of "fight_night\<lparr>highlights := [jab]\<rparr>" jab]
  by (simp add: fight_night_def)

text \<open>
  C6 as stated fails: the project already has a highlight with id \<open>''h1''\<close>, and adding
  another one with that id changes the project instead of leaving it as it was.
\<close>

theorem add_highlight_duplicate_id:
  "id' (jab\<lparr>name := ''Jab again''\<rparr>) \<in> set (map id' (highlights (fight_night\<lparr>highlights := [jab]\<rparr>)))
   \<and> add_highlight (fight_night\<lparr>highlights := [jab]\<rparr>) (jab\<lparr>name := ''Jab again''\<rparr>)
       \<noteq> fight_night\<lparr>highlights := [jab]\<rparr>
   \<and> highlights (add_highlight (fight_night\<lparr>highlights := [jab]\<rparr>) (jab\<lparr>name := ''Jab again''\<rparr>))
       = [jab, jab\<lparr>name := ''Jab again''\<rparr>]"
  by (simp add: add_highlight_def fight_night_def jab_def)

subsection \<open>Highlights that share an id\<close>

text \<open>
  C10, as the code has it. When two or more highlights have the id \<open>d\<close>,
  \<open>remove_highlight\<close> removes the first of them only and returns \<open>True\<close>; a selection equal
  to \<open>d\<close> is cleared although a highlight with id \<open>d\<close> remains; and when the selection
  is \<open>d\<close> and \<open>d\<close> is not the empty string, \<open>get_selected_highlight\<close> returns the
  first highlight with id \<open>d\<close>.
\<close>

theorem remove_highlight_duplicates:
  assumes "2 \<le> length (filter (\<lambda>h. id' h = d) (highlights p))"
  shows "\<exists>pre h post.
           highlights p = pre @ h # post \<and> id' h = d \<and> (\<forall>x\<in>set pre. id' x \<noteq> d) \<and>
           (\<exists>x\<in>set post. id' x = d) \<and>
           remove_highlight p d =
             (p\<lparr>highlights := pre @ post,
                selected_highlight_id :=
                  (if selected_highlight_id p = Some d then None else selected_highlight_id p)\<rparr>,
              True) \<and>
           (selected_highlight_id p = Some d \<longrightarrow>
              selected_highlight_id (fst (remove_highlight p d)) = None \<and>
              (\<exists>x\<in>set (highlights (fst (remove_highlight p d))). id' x = d)) \<and>
           (selected_highlight_id p = Some d \<and> d \<noteq> [] \<longrightarrow> get_selected_highlight p = Some h)"
proof -
  from assms have "filter (\<lambda>h. id' h = d) (highlights p) \<noteq> []" by auto
  then have "\<exists>h\<in>set (highlights p). id' h = d" by (simp add: filter_empty_conv)
  then obtain pre h post where
    d: "highlights p = pre @ h # post" "id' h = d" "\<forall>x\<in>set pre. id' x \<noteq> d"
    using first_split by blast
  from d(3) have "filter (\<lambda>h. id' h = d) pre = []" by (simp add: filter_empty_conv)
  with assms d have "filter (\<lambda>h. id' h = d) post \<noteq> []" by auto
  then have more: "\<exists>x\<in>set post. id' x = d" by (simp add: filter_empty_conv)
  note r = remove_highlight_found [OF d]
  have g: "selected_highlight_id p = Some d \<and> d \<noteq> [] \<longrightarrow> get_selected_highlight p = Some h"
    using get_selected_highlight_found [of p d pre h post] d by blast
  from d more r g show ?thesis by (intro exI [of _ pre] exI [of _ h] exI [of _ post]) auto
qed

text \<open>
  Two highlights with id \<open>''h1''\<close>, the first of them selected.
\<close>

theorem remove_highlight_duplicates_witness:
  "remove_highlight (fight_night\<lparr>highlights := [hook, jab, jab\<lparr>name := ''Jab again''\<rparr>],
       selected_highlight_id := Some ''h1''\<rparr>) ''h1''
     = (fight_night\<lparr>highlights := [hook, jab\<lparr>name := ''Jab again''\<rparr>]\<rparr>, True)
   \<and> get_selected_highlight (fight_night\<lparr>highlights := [hook, jab, jab\<lparr>name := ''Jab again''\<rparr>],
       selected_highlight_id := Some ''h1''\<rparr>) = Some jab"
  using remove_highlight_duplicates
      [of "''h1''" "fight_night\<lparr>highlights := [hook, jab, jab\<lparr>name := ''Jab again''\<rparr>],
            selected_highlight_id := Some ''h1''\<rparr>"]
  by (simp add: remove_highlight_def pop_at_def get_selected_highlight_def
      jab_def hook_def fight_night_def)

text \<open>
  C10 as stated fails for the empty string: two highlights have the id \<open>[]\<close>, it is the
  selection, and \<open>get_selected_highlight\<close> returns \<open>None\<close> instead of the first of them.
\<close>

theorem get_selected_highlight_duplicate_empty_ids:
  "map id' (highlights (fight_night\<lparr>highlights := [blank, blank_again],
       selected_highlight_id := Some []\<rparr>)) = [[], []]
   \<and> selected_highlight_id (fight_night\<lparr>highlights := [blank, blank_again],
       selected_highlight_id := Some []\<rparr>) = Some []
   \<and> get_selected_highlight (fight_night\<lparr>highlights := [blank, blank_again],
       selected_highlight_id := Some []\<rparr>) = None"
  by (simp add: get_selected_highlight_def blank_def blank_again_def fight_night_def)

subsection \<open>VideoFile construction\<close>

text \<open>
  C8, as the code has it. Constructing a VideoFile succeeds for every path, the empty
  string included, and stores the path, duration, fps, width and height as given, each of
  the four optional values possibly \<open>None\<close>.
\<close>

theorem VideoFile_construction:
  "mk_VideoFile lax p d f w h =
     Inr \<lparr>path = p, duration = d, fps = f, width = w, height = h\<rparr>"
  by (simp add: mk_VideoFile_def validate_VideoFile_def required_def with_default_def
      and_then_def validate_str_def validate_optional_def validate_float_def validate_int_def
      dump_optional_def split: option.splits)

text \<open>
  The two constructions of the tests.
\<close>

theorem VideoFile_construction_witness:
  "mk_VideoFile declared_types ''/path/to/video.mp4'' (Some 120.5) (Some 30) (Some 1920)
       (Some 1080)
     = Inr \<lparr>path = ''/path/to/video.mp4'', duration = Some 120.5, fps = Some 30,
            width = Some 1920, height = Some 1080\<rparr>
   \<and> mk_VideoFile declared_types ''/path/to/video.mp4'' None None None None
     = Inr \<lparr>path = ''/path/to/video.mp4'', duration = None, fps = None,
            width = None, height = None\<rparr>"
  using VideoFile_construction
      [of declared_types "''/path/to/video.mp4''" "Some 120.5" "Some 30" "Some 1920" "Some 1080"]
    VideoFile_construction [of declared_types "''/path/to/video.mp4''" None None None None]
  by simp

text \<open>
  C8 as stated fails: the empty path is accepted.
\<close>

theorem VideoFile_empty_path:
  "mk_VideoFile declared_types [] None None None None
     = Inr \<lparr>path = [], duration = None, fps = None, width = None, height = None\<rparr>
   \<and> mk_VideoFile declared_types [] None None None None \<noteq> Inl ValidationError"
  by (simp add: mk_VideoFile_def validate_VideoFile_def required_def with_default_def
      and_then_def validate_str_def validate_optional_def dump_optional_def)

subsection \<open>Validation and serialisation\<close>

lemma mk_TimeRange_valid: "mk_TimeRange s e = Inr r \<Longrightarrow> valid_TimeRange r"
  by (auto simp: mk_TimeRange_def valid_TimeRange_def split: if_splits)

lemma mk_TimeRange_fields:
  "mk_TimeRange (start r) (end' r) = (if valid_TimeRange r then Inr r else Inl ValidationError)"
  by (auto simp: mk_TimeRange_def valid_TimeRange_def)

lemma and_then_Inr: "and_then r f = Inr y \<longleftrightarrow> (\<exists>x. r = Inr x \<and> f x = Inr y)"
  by (cases r) (auto simp: and_then_def)

lemma and_then_InrE:
  assumes "and_then r f = Inr y"
  obtains x where "r = Inr x" "f x = Inr y"
  using assms by (cases r) (auto simp: and_then_def)

lemma validate_TimeRange_dump:
  "validate_TimeRange lax (dump_TimeRange r) =
     (if valid_TimeRange r then Inr r else Inl ValidationError)"
  by (simp add: validate_TimeRange_def dump_TimeRange_def required_def and_then_def
      validate_float_def mk_TimeRange_fields)

lemma validate_TimeRange_valid: "validate_TimeRange lax v = Inr r \<Longrightarrow> valid_TimeRange r"
  by (cases v) (auto simp: validate_TimeRange_def and_then_Inr dest: mk_TimeRange_valid)

lemma validate_each_map:
  "\<forall>x\<in>set xs. f (g x) = Inr x \<Longrightarrow> validate_each f (map g xs) = Inr xs"
  by (induction xs) (auto simp: and_then_def)

lemma validate_each_fails:
  "\<exists>v\<in>set vs. f v = Inl ValidationError \<Longrightarrow> validate_each f vs = Inl ValidationError"
proof (induction vs)
  case Nil
  then show ?case by simp
next
  case (Cons v vs)
  show ?case
  proof (cases "f v")
    case (Inl e)
    then show ?thesis by (cases e) (simp add: and_then_def)
  next
    case (Inr x)
    with Cons have "validate_each f vs = Inl ValidationError" by auto
    with Inr show ?thesis by (simp add: and_then_def)
  qed
qed

lemma validate_each_all:
  "validate_each f vs = Inr xs \<Longrightarrow> x \<in> set xs \<Longrightarrow> \<exists>v\<in>set vs. f v = Inr x"
proof (induction vs arbitrary: xs)
  case Nil
  then show ?case by simp
next
  case (Cons v vs)
  then show ?case by (auto simp: and_then_Inr)
qed

lemma validate_str_dump: "validate_str (JStr s) = Inr s"
  by (simp add: validate_str_def)

lemma validate_optional_dump:
  assumes "\<And>y. f (g y) = Inr y" "\<And>y. g y \<noteq> JNull"
  shows "validate_optional f (dump_optional g x) = Inr x"
proof (cases x)
  case None
  then show ?thesis by (simp add: validate_optional_def dump_optional_def)
next
  case (Some y)
  with assms [of y] show ?thesis
    by (cases "g y") (simp_all add: validate_optional_def dump_optional_def and_then_def)
qed

lemma validate_VideoFile_dump: "validate_VideoFile lax (dump_VideoFile v) = Inr v"
  by (simp add: validate_VideoFile_def dump_VideoFile_def required_def with_default_def
      validate_str_dump validate_optional_dump validate_float_def validate_int_def and_then_def)

lemma dump_VideoFile_not_null: "dump_VideoFile v \<noteq> JNull"
  by (simp add: dump_VideoFile_def)

lemma validate_Highlight_dump:
  "validate_Highlight lax (dump_Highlight h) =
     (if valid_TimeRange (time_range h) then Inr h else Inl ValidationError)"
  by (simp add: validate_Highlight_def dump_Highlight_def required_def with_default_def
      validate_str_dump validate_optional_dump validate_TimeRange_dump validate_list_def
      validate_each_map and_then_def)

lemma validate_Highlight_valid:
  "validate_Highlight lax v = Inr h \<Longrightarrow> valid_TimeRange (time_range h)"
  by (cases v)
    (auto simp: validate_Highlight_def and_then_Inr required_def
      split: option.splits dest: validate_TimeRange_valid)

lemma model_validate_highlights:
  assumes "model_validate lax (JObj kvs) = Inr p"
  shows "with_default kvs ''highlights'' [] (validate_list (validate_Highlight lax))
    = Inr (highlights p)"
proof -
  from assms have
    "and_then (required kvs ''project_name'' validate_str) (\<lambda>n.
     and_then (with_default kvs ''video_file'' None
                 (validate_optional (validate_VideoFile lax))) (\<lambda>f.
     and_then (with_default kvs ''highlights'' []
                 (validate_list (validate_Highlight lax))) (\<lambda>hs.
     and_then (with_default kvs ''selected_highlight_id'' None (validate_optional validate_str)) (\<lambda>s.
     and_then (with_default kvs ''export_settings'' [] validate_dict) (\<lambda>x.
     Inr \<lparr>project_name = n, video_file = f, highlights = hs,
          selected_highlight_id = s, export_settings = x\<rparr>))))) = Inr p"
    by (simp only: model_validate_def jv.case)
  then obtain n f hs s x where
    "with_default kvs ''highlights'' [] (validate_list (validate_Highlight lax)) = Inr hs"
    "Inr \<lparr>project_name = n, video_file = f, highlights = hs,
          selected_highlight_id = s, export_settings = x\<rparr> = (Inr p :: error + ProjectState)"
    by (elim and_then_InrE)
  then show ?thesis by auto
qed

lemma validate_list_valid:
  assumes "validate_list (validate_Highlight lax) w = Inr hs" "h \<in> set hs"
  shows "valid_TimeRange (time_range h)"
proof -
  from assms(1) obtain vs where vs: "validate_each (validate_Highlight lax) vs = Inr hs"
    by (cases w) (simp_all add: validate_list_def)
  from validate_each_all [OF vs assms(2)] obtain v where "validate_Highlight lax v = Inr h"
    by (elim bexE)
  then show ?thesis by (rule validate_Highlight_valid)
qed

lemma model_validate_valid:
  assumes "model_validate lax v = Inr p"
  shows "ranges_valid p"
proof (cases v)
  case (JObj kvs)
  with assms have w: "with_default kvs ''highlights'' [] (validate_list (validate_Highlight lax))
      = Inr (highlights p)"
    by (simp add: model_validate_highlights)
  show ?thesis
  proof (cases "map_of kvs ''highlights''")
    case None
    with w have "highlights p = []" by (simp add: with_default_def)
    then show ?thesis by (simp add: ranges_valid_def)
  next
    case (Some x)
    with w have "validate_list (validate_Highlight lax) x = Inr (highlights p)"
      by (simp add: with_default_def)
    then show ?thesis
      unfolding ranges_valid_def by (intro ballI) (rule validate_list_valid)
  qed
qed (use assms in \<open>simp_all add: model_validate_def\<close>)

lemma model_validate_dump:
  "model_validate lax (model_dump p) =
     (if ranges_valid p then Inr p else Inl ValidationError)"
proof (cases "ranges_valid p")
  case True
  then have "validate_each (validate_Highlight lax) (map dump_Highlight (highlights p))
      = Inr (highlights p)"
    by (intro validate_each_map) (simp add: ranges_valid_def validate_Highlight_dump)
  with True show ?thesis
    by (simp add: model_validate_def model_dump_def required_def with_default_def
        validate_str_dump validate_optional_dump validate_VideoFile_dump dump_VideoFile_not_null
        validate_list_def validate_dict_def and_then_def)
next
  case False
  then have "\<exists>v\<in>set (map dump_Highlight (highlights p)).
      validate_Highlight lax v = Inl ValidationError"
    by (auto simp: ranges_valid_def validate_Highlight_dump)
  then have "validate_each (validate_Highlight lax) (map dump_Highlight (highlights p))
      = Inl ValidationError"
    by (rule validate_each_fails)
  with False show ?thesis
    by (simp add: model_validate_def model_dump_def required_def with_default_def
        validate_str_dump validate_optional_dump validate_VideoFile_dump dump_VideoFile_not_null
        validate_list_def and_then_def)
qed

lemma model_validate_bad_highlight:
  assumes "map_of kvs ''highlights'' = Some (JList vs)" "v \<in> set vs"
    "validate_Highlight lax v = Inl ValidationError"
  shows "model_validate lax (JObj kvs) = Inl ValidationError"
proof (cases "model_validate lax (JObj kvs)")
  case (Inl e)
  then show ?thesis by (cases e) simp
next
  case (Inr p)
  then have "with_default kvs ''highlights'' [] (validate_list (validate_Highlight lax))
      = Inr (highlights p)"
    by (rule model_validate_highlights)
  with assms(1) have "validate_each (validate_Highlight lax) vs = Inr (highlights p)"
    by (simp add: with_default_def validate_list_def)
  moreover have "validate_each (validate_Highlight lax) vs = Inl ValidationError"
    using assms(2,3) by (intro validate_each_fails) blast
  ultimately show ?thesis by simp
qed

subsection \<open>Writing and reading the state file\<close>

lemma json_reload_like: "json_like v \<Longrightarrow> json_reload v = v"
proof (induction v)
  case (JList vs)
  then show ?case by (simp add: map_idI)
next
  case (JObj kvs)
  have "map (map_prod id json_reload) kvs = map id kvs"
  proof (rule map_cong [OF refl])
    fix kv assume m: "kv \<in> set kvs"
    obtain k v where kv: "kv = (k, v)" by (cases kv)
    with m JObj.prems have "json_like v" by force
    with JObj.IH m kv have "json_reload v = v" by force
    with kv show "map_prod id json_reload kv = id kv" by simp
  qed
  then show ?case by simp
qed simp_all

lemma reloaded_like:
  assumes "\<forall>v\<in>snd ` set (export_settings p). json_like v"
  shows "reloaded p = p"
proof -
  have "map (map_prod id json_reload) (export_settings p) = map id (export_settings p)"
  proof (rule map_cong [OF refl])
    fix kv assume m: "kv \<in> set (export_settings p)"
    obtain k v where kv: "kv = (k, v)" by (cases kv)
    with m assms have "json_like v" by force
    then have "json_reload v = v" by (rule json_reload_like)
    with kv show "map_prod id json_reload kv = id kv" by simp
  qed
  then show ?thesis by (simp add: reloaded_def)
qed

lemma json_reload_dump_optional:
  "(\<And>y. json_reload (g y) = g y) \<Longrightarrow> json_reload (dump_optional g x) = dump_optional g x"
  by (cases x) (simp_all add: dump_optional_def)

lemma json_reload_dump_VideoFile: "json_reload (dump_VideoFile v) = dump_VideoFile v"
  by (simp add: dump_VideoFile_def json_reload_dump_optional)

lemma json_reload_dump_Highlight: "json_reload (dump_Highlight h) = dump_Highlight h"
  by (simp add: dump_Highlight_def dump_TimeRange_def json_reload_dump_optional comp_def)

lemma json_reload_model_dump: "json_reload (model_dump p) = model_dump (reloaded p)"
  by (simp add: model_dump_def reloaded_def json_reload_dump_optional
      json_reload_dump_VideoFile json_reload_dump_Highlight comp_def)

lemma ranges_valid_reloaded: "ranges_valid (reloaded p) = ranges_valid p"
  by (simp add: ranges_valid_def reloaded_def)

lemma load_valid: "load_project_state lax st = Some p \<Longrightarrow> ranges_valid p"
  by (auto simp: load_project_state_def split: option.splits sum.splits dest: model_validate_valid)

lemma load_written:
  "load_project_state lax (Some (json_reload (model_dump p))) =
     (if ranges_valid p then Some (reloaded p) else None)"
  by (simp add: load_project_state_def json_reload_model_dump model_validate_dump
      ranges_valid_reloaded)

text \<open>
  C5, as the code has it. For every project whose highlights hold valid time ranges and
  whose export settings hold no tuple, validating the dumped project gives the project
  back, equal on every field, both from the dumped dict itself and from the JSON document
  that is written to the state file and read again. The field names and the nesting of
  the document are those of \<open>model_dump\<close> above.
\<close>

theorem serialisation_round_trip:
  assumes "\<forall>h\<in>set (highlights p). valid_TimeRange (time_range h)"
    and "\<forall>v\<in>snd ` set (export_settings p). json_like v"
  shows "model_validate lax (model_dump p) = Inr p
    \<and> model_validate lax (json_reload (model_dump p)) = Inr p"
  using assms model_validate_dump [of lax p] reloaded_like [of p]
  by (simp add: ranges_valid_def json_reload_model_dump)

text \<open>
  A project with a video file, two highlights, a selection and an export setting: the
  document it is dumped to, with the field names and the nesting of the state file, and
  its validation.
\<close>

theorem serialisation_round_trip_witness:
  "ranges_valid title_fight
   \<and> json_like (JStr ''mp4'')
   \<and> model_dump title_fight =
       JObj [(''project_name'', JStr ''Title Fight''),
             (''video_file'',
              JObj [(''path'', JStr ''/test/video.mp4''), (''duration'', JFloat 60),
                    (''fps'', JNull), (''width'', JInt 1920), (''height'', JNull)]),
             (''highlights'',
              JList [JObj [(''id'', JStr ''h1''), (''name'', JStr ''Jab''),
                           (''time_range'', JObj [(''start'', JFloat 5), (''end'', JFloat 15)]),
                           (''description'', JNull), (''tags'', JList [])],
                     JObj [(''id'', JStr ''h2''), (''name'', JStr ''Hook''),
                           (''time_range'', JObj [(''start'', JFloat 10), (''end'', JFloat 20)]),
                           (''description'', JStr ''left hook''),
                           (''tags'', JList [JStr ''round1''])]]),
             (''selected_highlight_id'', JStr ''h2''),
             (''export_settings'', JObj [(''format'', JStr ''mp4'')])]
   \<and> json_reload (model_dump title_fight) = model_dump title_fight
   \<and> model_validate declared_types (json_reload (model_dump title_fight)) = Inr title_fight"
proof -
  have v: "\<forall>h\<in>set (highlights title_fight). valid_TimeRange (time_range h)"
    by (simp add: title_fight_def valid_TimeRange_def jab_def hook_def)
  have j: "\<forall>v\<in>snd ` set (export_settings title_fight). json_like v"
    by (simp add: title_fight_def)
  have d: "model_dump title_fight =
       JObj [(''project_name'', JStr ''Title Fight''),
             (''video_file'',
              JObj [(''path'', JStr ''/test/video.mp4''), (''duration'', JFloat 60),
                    (''fps'', JNull), (''width'', JInt 1920), (''height'', JNull)]),
             (''highlights'',
              JList [JObj [(''id'', JStr ''h1''), (''name'', JStr ''Jab''),
                           (''time_range'', JObj [(''start'', JFloat 5), (''end'', JFloat 15)]),
                           (''description'', JNull), (''tags'', JList [])],
                     JObj [(''id'', JStr ''h2''), (''name'', JStr ''Hook''),
                           (''time_range'', JObj [(''start'', JFloat 10), (''end'', JFloat 20)]),
                           (''description'', JStr ''left hook''),
                           (''tags'', JList [JStr ''round1''])]]),
             (''selected_highlight_id'', JStr ''h2''),
             (''export_settings'', JObj [(''format'', JStr ''mp4'')])]"
    by (simp add: model_dump_def dump_VideoFile_def dump_Highlight_def dump_TimeRange_def
        dump_optional_def title_fight_def jab_def hook_def)
  have r: "json_reload (model_dump title_fight) = model_dump title_fight"
    unfolding d by simp
  from v have "ranges_valid title_fight" by (simp add: ranges_valid_def)
  with d r serialisation_round_trip [OF v j, of declared_types] show ?thesis by simp
qed

text \<open>
  C5 as stated fails: the project is valid, its export settings hold the tuple
  \<open>(1920, 1080)\<close>, and what comes back from the state file holds the list
  \<open>[1920, 1080]\<close> in its place, which is not equal to the tuple.
\<close>

theorem serialisation_loses_tuple:
  "ranges_valid widescreen
   \<and> export_settings widescreen = [(''size'', JTuple [JInt 1920, JInt 1080])]
   \<and> model_validate declared_types (json_reload (model_dump widescreen))
       = Inr (widescreen\<lparr>export_settings := [(''size'', JList [JInt 1920, JInt 1080])]\<rparr>)
   \<and> widescreen\<lparr>export_settings := [(''size'', JList [JInt 1920, JInt 1080])]\<rparr> \<noteq> widescreen"
proof -
  have v: "ranges_valid widescreen"
    by (simp add: ranges_valid_def widescreen_def fight_night_def)
  have r: "reloaded widescreen =
      widescreen\<lparr>export_settings := [(''size'', JList [JInt 1920, JInt 1080])]\<rparr>"
    by (simp add: reloaded_def widescreen_def)
  have "model_validate declared_types (json_reload (model_dump widescreen))
      = Inr (reloaded widescreen)"
    using v by (simp add: json_reload_model_dump model_validate_dump ranges_valid_reloaded)
  with v r show ?thesis by (simp add: widescreen_def fight_night_def)
qed

text \<open>
  C7, as the code has it. A project that \<open>load_project_state\<close> returns holds only valid
  time ranges; a document with a highlight entry that fails validation loads as nothing;
  and the state file written from a project loads as the whole project when all its
  ranges are valid and as nothing otherwise. Whether the selected id names a highlight is
  not checked.
\<close>

theorem load_revalidates_ranges:
  "(load_project_state lax st = Some p \<longrightarrow>
      (\<forall>h\<in>set (highlights p). valid_TimeRange (time_range h)))
   \<and> (map_of kvs ''highlights'' = Some (JList vs) \<and> v \<in> set vs \<and>
       validate_Highlight lax v = Inl ValidationError \<longrightarrow>
         load_project_state lax (Some (JObj kvs)) = None)
   \<and> load_project_state lax (Some (json_reload (model_dump q))) =
       (if \<forall>h\<in>set (highlights q). valid_TimeRange (time_range h)
        then Some (reloaded q) else None)"
  using load_valid [of lax st p] load_written [of lax q]
    model_validate_bad_highlight [of kvs vs v lax]
  by (simp add: ranges_valid_def load_project_state_def)

text \<open>
  A project that loads, a document with one good highlight and one with an inverted
  range, and a written project with an inverted range: the last two do not load.
\<close>

theorem load_revalidates_ranges_witness:
  "load_project_state declared_types (Some (json_reload (model_dump round_one)))
     = Some round_one
   \<and> valid_TimeRange (time_range jab) \<and> valid_TimeRange (time_range hook)
   \<and> validate_Highlight declared_types
        (JObj [(''id'', JStr ''h4''), (''name'', JStr ''Uppercut''),
               (''time_range'', JObj [(''start'', JFloat 20), (''end'', JFloat 10)])])
       = Inl ValidationError
   \<and> load_project_state declared_types
        (Some (JObj [(''project_name'', JStr ''Fight Night''),
                     (''highlights'',
                      JList [dump_Highlight jab,
                             JObj [(''id'', JStr ''h4''), (''name'', JStr ''Uppercut''),
                                   (''time_range'',
                                    JObj [(''start'', JFloat 20), (''end'', JFloat 10)])]])]))
       = None
   \<and> load_project_state declared_types
        (Some (json_reload (model_dump (round_one\<lparr>highlights :=
          [jab, hook\<lparr>time_range := \<lparr>start = 20, end' = 10\<rparr>\<rparr>]\<rparr>)))) = None"
proof -
  have b: "validate_Highlight declared_types
        (JObj [(''id'', JStr ''h4''), (''name'', JStr ''Uppercut''),
               (''time_range'', JObj [(''start'', JFloat 20), (''end'', JFloat 10)])])
       = Inl ValidationError"
    by (simp add: validate_Highlight_def validate_TimeRange_def required_def with_default_def
        and_then_def validate_str_def validate_float_def mk_TimeRange_def)
  have v: "valid_TimeRange (time_range jab) \<and> valid_TimeRange (time_range hook)"
    by (simp add: valid_TimeRange_def jab_def hook_def)
  have r: "reloaded round_one = round_one"
    by (simp add: reloaded_def round_one_def fight_night_def)
  from load_revalidates_ranges
      [of declared_types "Some (json_reload (model_dump round_one))" round_one
          "[(''project_name'', JStr ''Fight Night''),
            (''highlights'',
             JList [dump_Highlight jab,
                    JObj [(''id'', JStr ''h4''), (''name'', JStr ''Uppercut''),
                          (''time_range'',
                           JObj [(''start'', JFloat 20), (''end'', JFloat 10)])]])]"
          "[dump_Highlight jab,
            JObj [(''id'', JStr ''h4''), (''name'', JStr ''Uppercut''),
                  (''time_range'', JObj [(''start'', JFloat 20), (''end'', JFloat 10)])]]"
          "JObj [(''id'', JStr ''h4''), (''name'', JStr ''Uppercut''),
                 (''time_range'', JObj [(''start'', JFloat 20), (''end'', JFloat 10)])]"
          round_one]
    load_revalidates_ranges
      [of declared_types None fight_night "[]" "[]" JNull
          "round_one\<lparr>highlights := [jab, hook\<lparr>time_range := \<lparr>start = 20, end' = 10\<rparr>\<rparr>]\<rparr>"]
    b v r
  show ?thesis
    by (simp add: valid_TimeRange_def round_one_def jab_def hook_def)
qed

text \<open>
  C7 as stated fails: a document whose selected id names no highlight loads, and the
  loaded project has a selection and no highlight.
\<close>

theorem load_accepts_dangling_selection:
  "load_project_state declared_types
     (Some (JObj [(''project_name'', JStr ''Fight Night''), (''highlights'', JList []),
                  (''selected_highlight_id'', JStr ''ghost'')]))
     = Some (fight_night\<lparr>selected_highlight_id := Some ''ghost''\<rparr>)
   \<and> highlights (fight_night\<lparr>selected_highlight_id := Some ''ghost''\<rparr>) = []"
  by (simp add: load_project_state_def model_validate_def required_def with_default_def
      and_then_def validate_str_def validate_optional_def validate_list_def fight_night_def)

subsection \<open>The nudge route\<close>




lemma save_failed: "w \<noteq> Written \<Longrightarrow> fst (save_project_state w p st) = False"
  by (cases w) (simp_all add: save_project_state_def)



subsection \<open>The select route\<close>

text \<open>
  C9, as the code has it. For a stored project and a non-empty id: when some highlight has
  the id, the route sets \<open>selected_highlight_id\<close> to the id, writes the project and answers
  200, or answers 500 when the write fails; when no highlight has the id, it answers 404
  "Highlight not found" and the stored project is unchanged. The empty id is refused with
  400 and the stored project is unchanged.
\<close>

theorem select_highlight_route:
  assumes "load_project_state lax st = Some p"
  shows "(hid \<noteq> [] \<and> (\<exists>h\<in>set (highlights p). id' h = hid) \<longrightarrow>
            select_highlight lax Written (Some hid) st =
              ((200, ''Highlight selected''),
               Some (json_reload (model_dump (p\<lparr>selected_highlight_id := Some hid\<rparr>))))
          \<and> load_project_state lax
               (Some (json_reload (model_dump (p\<lparr>selected_highlight_id := Some hid\<rparr>))))
              = Some (reloaded (p\<lparr>selected_highlight_id := Some hid\<rparr>))
          \<and> (w \<noteq> Written \<longrightarrow>
               fst (select_highlight lax w (Some hid) st) =
                 (500, ''Failed to save project state'')))
       \<and> (hid \<noteq> [] \<and> (\<forall>h\<in>set (highlights p). id' h \<noteq> hid) \<longrightarrow>
            select_highlight lax w (Some hid) st = ((404, ''Highlight not found''), st))
       \<and> select_highlight lax w (Some []) st = ((400, ''highlight_id is required''), st)"
proof -
  have "ranges_valid (p\<lparr>selected_highlight_id := Some hid\<rparr>)"
    using load_valid [OF assms] by (simp add: ranges_valid_def)
  then have l: "load_project_state lax
      (Some (json_reload (model_dump (p\<lparr>selected_highlight_id := Some hid\<rparr>))))
      = Some (reloaded (p\<lparr>selected_highlight_id := Some hid\<rparr>))"
    by (simp add: load_written)
  have bad: "fst (select_highlight lax w (Some hid) st) = (500, ''Failed to save project state'')"
    if "w \<noteq> Written" "hid \<noteq> []" "\<exists>h\<in>set (highlights p). id' h = hid"
    using that assms save_failed [OF that(1), of "p\<lparr>selected_highlight_id := Some hid\<rparr>" st]
    by (cases "save_project_state w (p\<lparr>selected_highlight_id := Some hid\<rparr>) st")
      (simp add: select_highlight_def)
  from assms l bad show ?thesis
    by (simp add: select_highlight_def save_project_state_def)
qed

text \<open>
  Selecting an id that is present, and one that is absent.
\<close>

theorem select_highlight_route_witness:
  "load_project_state declared_types (Some (model_dump round_one)) = Some round_one
   \<and> select_highlight declared_types Written (Some ''h1'') (Some (model_dump round_one)) =
       ((200, ''Highlight selected''),
        Some (model_dump (round_one\<lparr>selected_highlight_id := Some ''h1''\<rparr>)))
   \<and> select_highlight declared_types Written (Some ''h9'') (Some (model_dump round_one)) =
       ((404, ''Highlight not found''), Some (model_dump round_one))"
proof -
  have l1: "load_project_state declared_types (Some (model_dump round_one)) = Some round_one"
    by (simp add: load_project_state_def model_validate_dump ranges_valid_def
        valid_TimeRange_def round_one_def jab_def hook_def)
  have e1: "reloaded (round_one\<lparr>selected_highlight_id := Some ''h1''\<rparr>) =
      round_one\<lparr>selected_highlight_id := Some ''h1''\<rparr>"
    by (simp add: reloaded_def round_one_def fight_night_def)
  from select_highlight_route [OF l1, of "''h1''" Written]
    select_highlight_route [OF l1, of "''h9''" Written] l1 e1
  show ?thesis
    by (simp add: json_reload_model_dump round_one_def jab_def hook_def)
qed

text \<open>
  C9 as stated fails for the empty string: the stored project has a highlight with id
  \<open>[]\<close>, and selecting that id is refused and sets nothing.
\<close>

theorem select_highlight_empty_id:
  "load_project_state declared_types (Some (model_dump (fight_night\<lparr>highlights := [blank]\<rparr>)))
     = Some (fight_night\<lparr>highlights := [blank]\<rparr>)
   \<and> id' blank = []
   \<and> blank \<in> set (highlights (fight_night\<lparr>highlights := [blank]\<rparr>))
   \<and> select_highlight declared_types Written (Some [])
        (Some (model_dump (fight_night\<lparr>highlights := [blank]\<rparr>)))
       = ((400, ''highlight_id is required''),
          Some (model_dump (fight_night\<lparr>highlights := [blank]\<rparr>)))"
  by (simp add: load_project_state_def model_validate_dump ranges_valid_def
      valid_TimeRange_def select_highlight_def blank_def)

end
